theory Spec2Isabelle
  imports Complex_Main
begin

section \<open>The parts of the program that are outside the verified files\<close>

text \<open>
  The two verified files are \<^verbatim>\<open>src/textual/visual.py\<close> (Style, textualize) and
  \<^verbatim>\<open>src/textual/design.py\<close> (ColorSystem). Both import the class \<^verbatim>\<open>Color\<close> and
  the constants \<^verbatim>\<open>WHITE\<close> and \<^verbatim>\<open>TRANSPARENT\<close> from \<^verbatim>\<open>textual.color\<close>, which is
  not among the sources. The colour type is therefore a type variable \<open>'c\<close> and every
  operation of the colour module that the two files call is a field of the record
  below: a theorem about \<open>generate M cs\<close> holds for every implementation \<open>M\<close> of the
  colour module.

  Python floats are not real numbers, so they are not modelled by \<open>real\<close>: the
  numeric type is a second type variable \<open>'n\<close>, and the three arithmetic operators
  the code applies to floats, with the conversion of a literal or an int to a float,
  are fields as well. Nothing is assumed about them.
\<close>

datatype error = InvalidColorError | StopIteration | TypeError | Raised string

record ('c, 'n) color_module =
  parse :: "string \<Rightarrow> error + 'c"          \<comment> \<open>\<^verbatim>\<open>Color.parse(text)\<close>; raises InvalidColorError\<close>
  WHITE :: 'c                               \<comment> \<open>\<^verbatim>\<open>textual.color.WHITE\<close>\<close>
  TRANSPARENT :: 'c                         \<comment> \<open>\<^verbatim>\<open>textual.color.TRANSPARENT\<close>\<close>
  ansi :: "'c \<Rightarrow> int option"                \<comment> \<open>attribute \<^verbatim>\<open>color.ansi\<close>\<close>
  hex :: "'c \<Rightarrow> string"                     \<comment> \<open>property \<^verbatim>\<open>color.hex\<close>\<close>
  is_transparent :: "'c \<Rightarrow> bool"            \<comment> \<open>property \<^verbatim>\<open>color.is_transparent\<close>\<close>
  clamped :: "'c \<Rightarrow> 'c"                     \<comment> \<open>property \<^verbatim>\<open>color.clamped\<close>\<close>
  inverse_c :: "'c \<Rightarrow> 'c"                   \<comment> \<open>property \<^verbatim>\<open>color.inverse\<close>\<close>
  color_add :: "'c \<Rightarrow> 'c \<Rightarrow> 'c"              \<comment> \<open>\<^verbatim>\<open>self + other\<close> on colours\<close>
  lighten :: "'c \<Rightarrow> 'n \<Rightarrow> 'c"                \<comment> \<open>\<^verbatim>\<open>color.lighten(amount)\<close>\<close>
  blend :: "'c \<Rightarrow> 'c \<Rightarrow> 'n \<Rightarrow> 'n option \<Rightarrow> 'c"  \<comment> \<open>\<^verbatim>\<open>color.blend(destination, factor, alpha)\<close>\<close>
  with_alpha :: "'c \<Rightarrow> 'n \<Rightarrow> 'c"             \<comment> \<open>\<^verbatim>\<open>color.with_alpha(alpha)\<close>\<close>
  get_contrast_text :: "'c \<Rightarrow> 'n \<Rightarrow> 'c"      \<comment> \<open>\<^verbatim>\<open>color.get_contrast_text(alpha)\<close>\<close>
  float_of :: "rat \<Rightarrow> 'n"                   \<comment> \<open>the float of a decimal literal or of an int\<close>
  fadd :: "'n \<Rightarrow> 'n \<Rightarrow> 'n"                   \<comment> \<open>float \<^verbatim>\<open>+\<close>\<close>
  fmul :: "'n \<Rightarrow> 'n \<Rightarrow> 'n"                   \<comment> \<open>float \<^verbatim>\<open>*\<close>\<close>
  fdiv :: "'n \<Rightarrow> 'n \<Rightarrow> 'n"                   \<comment> \<open>float \<^verbatim>\<open>/\<close> (the divisors in the code are 2 and 3.5)\<close>

section \<open>visual.py\<close>

subsection \<open>textualize\<close>

text \<open>
  \<^verbatim>\<open>textualize(obj)\<close> looks at one attribute of an arbitrary object and calls it. What
  it can observe of \<open>obj\<close> is the outcome of \<^verbatim>\<open>getattr(obj, "textualize", None)\<close> and the
  outcome of calling the attribute with no argument. \<open>'v\<close> is the type of the instances
  of \<^verbatim>\<open>Visual\<close>, so \<^verbatim>\<open>isinstance(x, Visual)\<close> holds exactly of the values \<open>A_Visual v\<close>.
\<close>

datatype 'v pyvalue =
    PyNone
  | A_Visual 'v
  | Not_A_Visual string

datatype 'v call_outcome =
    Returns "'v pyvalue"
  | Raises error

datatype 'v attribute =
    No_Attribute                    \<comment> \<open>the lookup raises AttributeError: getattr gives the default\<close>
  | Lookup_Raises error             \<comment> \<open>the lookup raises something else: getattr lets it through\<close>
  | Holds_None                      \<comment> \<open>the attribute is there and is None\<close>
  | Holds_Not_Callable              \<comment> \<open>the attribute is there, not None, and cannot be called\<close>
  | Holds_Callable "'v call_outcome"  \<comment> \<open>the attribute is callable; what the call does\<close>

fun isinstance_Visual :: "'v pyvalue \<Rightarrow> bool" where
  "isinstance_Visual (A_Visual v) = True"
| "isinstance_Visual _ = False"

fun textualize :: "'v attribute \<Rightarrow> error + 'v option" where
  "textualize No_Attribute = Inr None"
| "textualize (Lookup_Raises e) = Inl e"
| "textualize Holds_None = Inr None"
| "textualize Holds_Not_Callable = Inl TypeError"
| "textualize (Holds_Callable (Raises e)) = Inl e"
| "textualize (Holds_Callable (Returns visual)) =
     (if \<not> isinstance_Visual visual then Inr None
      else (case visual of A_Visual v \<Rightarrow> Inr (Some v) | _ \<Rightarrow> Inr None))"

subsection \<open>Style\<close>

type_synonym bytes = string

record 'c Style =
  background :: 'c
  foreground :: 'c
  bold :: "bool option"
  dim :: "bool option"
  italic :: "bool option"
  underline :: "bool option"
  strike :: "bool option"
  link :: "string option"
  meta :: "bytes option"   \<comment> \<open>the field \<^verbatim>\<open>_meta\<close>\<close>

text \<open>
  The constructor \<^verbatim>\<open>Style(...)\<close> with its defaults: both colours \<^verbatim>\<open>TRANSPARENT\<close>, every
  other field None. A keyword argument of the source is a field update on it.
\<close>

definition Style_default :: "('c, 'n) color_module \<Rightarrow> 'c Style" where
  "Style_default M =
     \<lparr> Style.background = TRANSPARENT M, Style.foreground = TRANSPARENT M,
       bold = None, dim = None, italic = None, underline = None, strike = None,
       link = None, meta = None \<rparr>"

text \<open>
  \<^verbatim>\<open>Style.__add__(self, other)\<close> for \<open>other\<close> a Style (for any other object it returns
  \<^verbatim>\<open>NotImplemented\<close>). The \<^verbatim>\<open>lru_cache\<close> around it stores results of this pure function
  of two immutable values and is not part of the model.
\<close>

definition style_add :: "('c, 'n) color_module \<Rightarrow> 'c Style \<Rightarrow> 'c Style \<Rightarrow> 'c Style" where
  "style_add M self other =
     \<lparr> Style.background = color_add M (Style.background self) (Style.background other),
       Style.foreground =
         (if is_transparent M (Style.foreground other) then Style.foreground self
          else Style.foreground other),
       bold = (if bold other = None then bold self else bold other),
       dim = (if dim other = None then dim self else dim other),
       italic = (if italic other = None then italic self else italic other),
       underline = (if underline other = None then underline self else underline other),
       strike = (if strike other = None then strike self else strike other),
       link = (if link other = None then link self else link other),
       meta = (if meta other = None then meta self else meta other) \<rparr>"

text \<open>\<^verbatim>\<open>Style.without_color\<close>: the constructor with six keyword arguments.\<close>

definition without_color :: "('c, 'n) color_module \<Rightarrow> 'c Style \<Rightarrow> 'c Style" where
  "without_color M self =
     (Style_default M)
       \<lparr> bold := bold self,
         dim := dim self,
         italic := italic self,
         strike := strike self,
         link := link self,
         meta := meta self \<rparr>"

text \<open>
  \<^verbatim>\<open>Style.combine(styles)\<close> is \<^verbatim>\<open>sum(iter_styles, next(iter_styles))\<close>. An iterator is
  the list of the items it has not produced yet; \<^verbatim>\<open>next\<close> returns the first of them and
  the advanced iterator, or raises StopIteration. The arguments of \<^verbatim>\<open>sum\<close> are
  evaluated left to right, and the first is the iterator object itself, so \<^verbatim>\<open>sum\<close>
  runs over the iterator as \<^verbatim>\<open>next\<close> left it. \<^verbatim>\<open>sum(iterable, start)\<close> is the loop
  \<^verbatim>\<open>for x in iterable: start = start + x\<close>.
\<close>

type_synonym 'a iterator = "'a list"

definition iter :: "'a list \<Rightarrow> 'a iterator" where
  "iter xs = xs"

fun next_py :: "'a iterator \<Rightarrow> (error + 'a) \<times> 'a iterator" where
  "next_py [] = (Inl StopIteration, [])"
| "next_py (x # rest) = (Inr x, rest)"

fun sum_py :: "('a \<Rightarrow> 'a \<Rightarrow> 'a) \<Rightarrow> 'a iterator \<Rightarrow> 'a \<Rightarrow> 'a" where
  "sum_py add [] start = start"
| "sum_py add (x # rest) start = sum_py add rest (add start x)"

definition combine :: "('c, 'n) color_module \<Rightarrow> 'c Style list \<Rightarrow> error + 'c Style" where
  "combine M styles =
     (let iter_styles = iter styles;
          (first, iter_styles) = next_py iter_styles
      in case first of
           Inl e \<Rightarrow> Inl e
         | Inr start \<Rightarrow> Inr (sum_py (style_add M) iter_styles start))"

section \<open>design.py\<close>

subsection \<open>Constants and the shade names\<close>

definition NUMBER_OF_SHADES :: int where
  "NUMBER_OF_SHADES = 3"

definition DEFAULT_DARK_BACKGROUND :: string where
  "DEFAULT_DARK_BACKGROUND = ''#1e1e1e''"

definition DEFAULT_DARK_SURFACE :: string where
  "DEFAULT_DARK_SURFACE = ''#272727''"

definition DEFAULT_LIGHT_SURFACE :: string where
  "DEFAULT_LIGHT_SURFACE = ''#f5f5f5''"

definition DEFAULT_LIGHT_BACKGROUND :: string where
  "DEFAULT_LIGHT_BACKGROUND = ''#efefef''"


text \<open>\<^verbatim>\<open>str(n)\<close> of an int, as an f-string formats it: decimal digits, a minus sign.\<close>

definition digit_char :: "nat \<Rightarrow> char" where
  "digit_char d = ''0123456789'' ! d"

fun str_nat :: "nat \<Rightarrow> string" where
  "str_nat n = (if n < 10 then [digit_char n] else str_nat (n div 10) @ [digit_char (n mod 10)])"

declare str_nat.simps [simp del]

definition str :: "int \<Rightarrow> string" where
  "str i = (if i < 0 then ''-'' @ str_nat (nat (- i)) else str_nat (nat i))"

text \<open>\<^verbatim>\<open>range(start, stop)\<close>: the ints from start up to stop - 1.\<close>

definition range_py :: "int \<Rightarrow> int \<Rightarrow> int list" where
  "range_py start stop = [start..stop - 1]"

record ('c, 'n) ColorSystem =
  primary :: 'c
  secondary :: "'c option"
  warning :: "'c option"
  error :: "'c option"
  success :: "'c option"
  accent :: "'c option"
  foreground :: "'c option"
  background :: "'c option"
  surface :: "'c option"
  panel :: "'c option"
  boost :: "'c option"
  dark :: bool
  luminosity_spread :: 'n
  text_alpha :: 'n


subsection \<open>generate: the fallback chain (lines 108 to 133)\<close>

text \<open>
  \<^verbatim>\<open>x or y\<close> on an optional colour. A value of the colour class is a plain object and
  counts as true, so the right operand is taken exactly when the left one is None;
  the right operand is evaluated only then, which matters for \<^verbatim>\<open>Color.parse\<close>.
\<close>

definition or_else :: "'c option \<Rightarrow> 'c \<Rightarrow> 'c" where
  "or_else x y = (case x of None \<Rightarrow> y | Some c \<Rightarrow> c)"

definition or_parse :: "('c, 'n) color_module \<Rightarrow> 'c option \<Rightarrow> string \<Rightarrow> error + 'c" where
  "or_parse M x text = (case x of None \<Rightarrow> parse M text | Some c \<Rightarrow> Inr c)"

text \<open>
  A statement that may raise, followed by the rest of the block: the exception ends
  the function, a value goes on.
\<close>

definition raising :: "error + 'a \<Rightarrow> ('a \<Rightarrow> error + 'b) \<Rightarrow> error + 'b" where
  "raising r rest = (case r of Inl e \<Rightarrow> Inl e | Inr x \<Rightarrow> rest x)"

text \<open>The local variables of \<^verbatim>\<open>generate\<close> that hold the resolved colours.\<close>

record 'c resolved =
  primary :: 'c
  secondary :: 'c
  warning :: 'c
  error :: 'c
  success :: 'c
  accent :: 'c
  background :: 'c
  surface :: 'c
  foreground :: 'c
  boost :: 'c
  panel :: 'c

definition resolve :: "('c, 'n) color_module \<Rightarrow> ('c, 'n) ColorSystem \<Rightarrow> error + 'c resolved" where
  "resolve M self =
     (let primary = ColorSystem.primary self;
          secondary = or_else (ColorSystem.secondary self) primary;
          warning = or_else (ColorSystem.warning self) primary;
          error = or_else (ColorSystem.error self) secondary;
          success = or_else (ColorSystem.success self) secondary;
          accent = or_else (ColorSystem.accent self) primary;
          dark = dark self
      in
      raising
        (if dark then
           raising (or_parse M (ColorSystem.background self) DEFAULT_DARK_BACKGROUND)
             (\<lambda>background.
                raising (or_parse M (ColorSystem.surface self) DEFAULT_DARK_SURFACE)
                  (\<lambda>surface. Inr (background, surface)))
         else
           raising (or_parse M (ColorSystem.background self) DEFAULT_LIGHT_BACKGROUND)
             (\<lambda>background.
                raising (or_parse M (ColorSystem.surface self) DEFAULT_LIGHT_SURFACE)
                  (\<lambda>surface. Inr (background, surface))))
        (\<lambda>(background, surface).
         (let foreground = or_else (ColorSystem.foreground self) (inverse_c M background);
              boost = or_else (ColorSystem.boost self)
                        (with_alpha M (get_contrast_text M background (float_of M 1))
                           (float_of M (4 / 100)));
              panel = (case ColorSystem.panel self of
                         None \<Rightarrow>
                           (let panel = blend M surface primary (float_of M (1 / 10))
                                          (Some (float_of M 1))
                            in if dark then color_add M panel boost else panel)
                       | Some p \<Rightarrow> p)
          in Inr \<lparr> resolved.primary = primary, resolved.secondary = secondary,
                   resolved.warning = warning, resolved.error = error,
                   resolved.success = success, resolved.accent = accent,
                   resolved.background = background, resolved.surface = surface,
                   resolved.foreground = foreground, resolved.boost = boost,
                   resolved.panel = panel \<rparr>)))"

text \<open>
  Modelled from the spec: \<^verbatim>\<open>Color.parse\<close> is not among the sources. According to the
  spec it recognises \<^verbatim>\<open>#rrggbb\<close>, which is the form of the four built-in defaults;
  this is the statement that it returns a colour for each of them.
\<close>

definition parses_defaults :: "('c, 'n) color_module \<Rightarrow> bool" where
  "parses_defaults M =
     (\<not> isl (parse M DEFAULT_DARK_BACKGROUND) \<and> \<not> isl (parse M DEFAULT_DARK_SURFACE)
      \<and> \<not> isl (parse M DEFAULT_LIGHT_BACKGROUND) \<and> \<not> isl (parse M DEFAULT_LIGHT_SURFACE))"

subsection \<open>generate: the shades (lines 135 to 187)\<close>

text \<open>
  The inner function \<^verbatim>\<open>luminosity_range(spread)\<close>. \<open>shade_label n\<close> is the first component
  it yields for \<open>n\<close>, the f-string \<^verbatim>\<open>f"{label}{'-' + str(abs(n)) if n else ''}"\<close>.
\<close>

definition shade_label :: "int \<Rightarrow> string" where
  "shade_label n =
     (let label = (if n < 0 then ''-darken''
                   else if n > 0 then ''-lighten''
                   else [])
      in label @ (if n \<noteq> 0 then ''-'' @ str \<bar>n\<bar> else []))"

definition luminosity_range :: "('c, 'n) color_module \<Rightarrow> 'n \<Rightarrow> (string \<times> 'n) list" where
  "luminosity_range M spread =
     (let luminosity_step = fdiv M spread (float_of M 2)
      in map (\<lambda>n. (shade_label n, fmul M (float_of M (of_int n)) luminosity_step))
             (range_py (- NUMBER_OF_SHADES) (NUMBER_OF_SHADES + 1)))"

definition COLORS :: "'c resolved \<Rightarrow> (string \<times> 'c) list" where
  "COLORS rc =
     [(''primary'', resolved.primary rc),
      (''secondary'', resolved.secondary rc),
      (''primary-background'', resolved.primary rc),
      (''secondary-background'', resolved.secondary rc),
      (''background'', resolved.background rc),
      (''foreground'', resolved.foreground rc),
      (''panel'', resolved.panel rc),
      (''boost'', resolved.boost rc),
      (''surface'', resolved.surface rc),
      (''warning'', resolved.warning rc),
      (''error'', resolved.error rc),
      (''success'', resolved.success rc),
      (''accent'', resolved.accent rc)]"

definition DARK_SHADES :: "string set" where
  "DARK_SHADES = {''primary-background'', ''secondary-background''}"

type_synonym palette = "string \<rightharpoonup> string"

text \<open>
  The body of the inner loop: one assignment to \<^verbatim>\<open>colors[f"{name}{shade_name}"]\<close>.
  \<open>rc\<close> holds the local variables assigned before the loop.
\<close>

definition store_shade ::
  "('c, 'n) color_module \<Rightarrow> 'c resolved \<Rightarrow> string \<Rightarrow> 'c \<Rightarrow> bool \<Rightarrow> 'n \<Rightarrow> palette \<Rightarrow>
     string \<times> 'n \<Rightarrow> palette"
where
  "store_shade M rc name color is_dark_shade spread colors shade =
     (case shade of (shade_name, luminosity_delta) \<Rightarrow>
        if ansi M color \<noteq> None then
          colors(name @ shade_name \<mapsto> hex M color)
        else if is_dark_shade then
          (let dark_background = blend M (resolved.background rc) color
                                   (float_of M (15 / 100)) (Some (float_of M 1));
               shade_color = clamped M
                  (blend M dark_background (WHITE M) (fadd M spread luminosity_delta)
                     (Some (float_of M 1)))
           in colors(name @ shade_name \<mapsto> hex M shade_color))
        else
          (let shade_color = lighten M color luminosity_delta
           in colors(name @ shade_name \<mapsto> hex M shade_color)))"

text \<open>The two nested loops over \<^verbatim>\<open>COLORS\<close> and \<^verbatim>\<open>luminosity_range(spread)\<close>.\<close>

definition store_shades ::
  "('c, 'n) color_module \<Rightarrow> ('c, 'n) ColorSystem \<Rightarrow> 'c resolved \<Rightarrow> palette \<Rightarrow> palette"
where
  "store_shades M self rc colors =
     foldl (\<lambda>colors (name, color).
              let is_dark_shade = (dark self \<and> name \<in> DARK_SHADES);
                  spread = luminosity_spread self
              in foldl (store_shade M rc name color is_dark_shade spread)
                   colors (luminosity_range M spread))
           colors (COLORS rc)"

subsection \<open>generate: the derived tokens (lines 189 to 218) and the whole function\<close>

definition store_derived ::
  "('c, 'n) color_module \<Rightarrow> ('c, 'n) ColorSystem \<Rightarrow> 'c resolved \<Rightarrow> palette \<Rightarrow> palette"
where
  "store_derived M self rc colors =
     (let colors =
            (if ansi M (resolved.foreground rc) = None then
               colors(''text'' \<mapsto> ''auto 87%'',
                      ''text-muted'' \<mapsto> ''auto 60%'',
                      ''text-disabled'' \<mapsto> ''auto 38%'')
             else
               colors(''text'' \<mapsto> ''ansi_default'',
                      ''text-muted'' \<mapsto> ''ansi_default'',
                      ''text-disabled'' \<mapsto> ''ansi_default''));
          colors = colors(''highlight-cursor'' \<mapsto> hex M (resolved.accent rc));
          colors = colors(''highlight-cursor-blurred'' \<mapsto>
                     hex M (with_alpha M (resolved.accent rc) (float_of M (3 / 10))));
          colors = colors(''border'' \<mapsto> hex M (resolved.accent rc));
          colors = colors(''border-blurred'' \<mapsto> hex M (resolved.surface rc));
          colors = colors(''highlight-hover'' \<mapsto>
                     hex M (with_alpha M (resolved.boost rc) (float_of M (5 / 100))));
          colors = colors(''surface-active'' \<mapsto>
                     hex M (lighten M (resolved.surface rc)
                              (fdiv M (luminosity_spread self) (float_of M (35 / 10)))))
      in colors)"

definition generate :: "('c, 'n) color_module \<Rightarrow> ('c, 'n) ColorSystem \<Rightarrow> error + palette" where
  "generate M self =
     raising (resolve M self)
       (\<lambda>rc.
          let colors = Map.empty;
              colors = store_shades M self rc colors;
              colors = store_derived M self rc colors
          in Inr colors)"

section \<open>Auxiliary definitions for the proofs\<close>

text \<open>
  The value that one pass of the inner loop stores, as one expression; \<open>dark_shade\<close>
  is the chain of calls of its second branch (lines 180 to 184).
\<close>

definition dark_shade :: "('c, 'n) color_module \<Rightarrow> 'c resolved \<Rightarrow> 'c \<Rightarrow> 'n \<Rightarrow> 'n \<Rightarrow> string" where
  "dark_shade M rc color spread luminosity_delta =
     hex M (clamped M
       (blend M
          (blend M (resolved.background rc) color (float_of M (15 / 100)) (Some (float_of M 1)))
          (WHITE M) (fadd M spread luminosity_delta) (Some (float_of M 1))))"

definition shade_hex ::
  "('c, 'n) color_module \<Rightarrow> 'c resolved \<Rightarrow> 'c \<Rightarrow> bool \<Rightarrow> 'n \<Rightarrow> 'n \<Rightarrow> string"
where
  "shade_hex M rc color is_dark_shade spread luminosity_delta =
     (if ansi M color \<noteq> None then hex M color
      else if is_dark_shade then dark_shade M rc color spread luminosity_delta
      else hex M (lighten M color luminosity_delta))"

text \<open>A run of assignments \<^verbatim>\<open>colors[k] = v\<close>, in the order of the list.\<close>

definition assign :: "palette \<Rightarrow> (string \<times> string) list \<Rightarrow> palette" where
  "assign colors kvs = foldl (\<lambda>m (k, v). m(k \<mapsto> v)) colors kvs"

text \<open>The assignments of the two nested loops, in the order in which they happen.\<close>

definition shade_entries ::
  "('c, 'n) color_module \<Rightarrow> ('c, 'n) ColorSystem \<Rightarrow> 'c resolved \<Rightarrow> (string \<times> string) list"
where
  "shade_entries M self rc =
     concat (map (\<lambda>(name, color).
        map (\<lambda>(shade_name, luminosity_delta).
               (name @ shade_name,
                shade_hex M rc color (dark self \<and> name \<in> DARK_SHADES)
                  (luminosity_spread self) luminosity_delta))
            (luminosity_range M (luminosity_spread self)))
        (COLORS rc))"

text \<open>The assignments after the loops, in the order in which they happen.\<close>

definition derived_entries ::
  "('c, 'n) color_module \<Rightarrow> ('c, 'n) ColorSystem \<Rightarrow> 'c resolved \<Rightarrow> (string \<times> string) list"
where
  "derived_entries M self rc =
     (if ansi M (resolved.foreground rc) = None
      then [(''text'', ''auto 87%''), (''text-muted'', ''auto 60%''),
            (''text-disabled'', ''auto 38%'')]
      else [(''text'', ''ansi_default''), (''text-muted'', ''ansi_default''),
            (''text-disabled'', ''ansi_default'')])
     @ [(''highlight-cursor'', hex M (resolved.accent rc)),
        (''highlight-cursor-blurred'',
           hex M (with_alpha M (resolved.accent rc) (float_of M (3 / 10)))),
        (''border'', hex M (resolved.accent rc)),
        (''border-blurred'', hex M (resolved.surface rc)),
        (''highlight-hover'',
           hex M (with_alpha M (resolved.boost rc) (float_of M (5 / 100)))),
        (''surface-active'',
           hex M (lighten M (resolved.surface rc)
                    (fdiv M (luminosity_spread self) (float_of M (35 / 10)))))]"

text \<open>The keys of the palette: those the loops write, and those written after them.\<close>

definition SHADED_NAMES :: "string list" where
  "SHADED_NAMES =
     [''primary'', ''secondary'', ''primary-background'', ''secondary-background'',
      ''background'', ''foreground'', ''panel'', ''boost'', ''surface'', ''warning'',
      ''error'', ''success'', ''accent'']"

definition SHADE_SUFFIXES :: "string list" where
  "SHADE_SUFFIXES =
     [''-darken-3'', ''-darken-2'', ''-darken-1'', [],
      ''-lighten-1'', ''-lighten-2'', ''-lighten-3'']"

definition SHADE_KEYS :: "string list" where
  "SHADE_KEYS = concat (map (\<lambda>name. map (\<lambda>suffix. name @ suffix) SHADE_SUFFIXES) SHADED_NAMES)"

definition DERIVED_KEYS :: "string list" where
  "DERIVED_KEYS =
     [''text'', ''text-muted'', ''text-disabled'', ''highlight-cursor'',
      ''highlight-cursor-blurred'', ''border'', ''border-blurred'', ''highlight-hover'',
      ''surface-active'']"

section \<open>An implementation of the colour module, for evaluation\<close>

text \<open>
  Modelled from the spec: the class \<^verbatim>\<open>Color\<close> of \<^verbatim>\<open>textual.color\<close> is not among the
  sources. The definitions of this section follow the spec's data model and its
  section on the colour algebra: a colour has three channels, an alpha between 0 and 1
  and an optional index into the terminal's fixed palette; an operation applied to a
  fixed-palette colour returns it unchanged; \<^verbatim>\<open>hex\<close> is a hex string, or a token for a
  fixed-palette colour. They serve to run \<open>generate\<close> and the Style operations on
  concrete values. Channels are ints from 0 to 255, numbers are rationals. Where the
  spec names a perceptual colour space without defining it (\<^verbatim>\<open>lighten\<close>, \<^verbatim>\<open>inverse\<close>,
  \<^verbatim>\<open>get_contrast_text\<close>), the three channels are shifted, inverted or weighted
  directly. No theorem about \<open>generate\<close> for every colour module depends on this
  section.
\<close>

datatype rgba =
  RGBA (red: int) (green: int) (blue: int) (alpha: rat) (palette_index: "int option")

definition hex_value :: "char \<Rightarrow> int option" where
  "hex_value c =
     map_of (zip ''0123456789abcdefABCDEF''
               [0, 1, 2, 3, 4, 5, 6, 7, 8, 9, 10, 11, 12, 13, 14, 15, 10, 11, 12, 13, 14, 15]) c"

text \<open>
  Modelled from the spec: \<^verbatim>\<open>Color.parse\<close> recognises \<^verbatim>\<open>#rrggbb\<close> and \<^verbatim>\<open>#rgb\<close> and fails
  with InvalidColorError on what it does not recognise. The spec does not list the
  palette tokens, so this parser knows none; a fixed-palette colour is written as a
  value.
\<close>

definition rgba_parse :: "string \<Rightarrow> error + rgba" where
  "rgba_parse text =
     (case text of
        [h, r1, r2, g1, g2, b1, b2] \<Rightarrow>
          (case map hex_value [r1, r2, g1, g2, b1, b2] of
             [Some r1, Some r2, Some g1, Some g2, Some b1, Some b2] \<Rightarrow>
               if h = CHR ''#''
               then Inr (RGBA (16 * r1 + r2) (16 * g1 + g2) (16 * b1 + b2) 1 None)
               else Inl InvalidColorError
           | _ \<Rightarrow> Inl InvalidColorError)
      | [h, r, g, b] \<Rightarrow>
          (case map hex_value [r, g, b] of
             [Some r, Some g, Some b] \<Rightarrow>
               if h = CHR ''#''
               then Inr (RGBA (17 * r) (17 * g) (17 * b) 1 None)
               else Inl InvalidColorError
           | _ \<Rightarrow> Inl InvalidColorError)
      | _ \<Rightarrow> Inl InvalidColorError)"

text \<open>Modelled from the spec: \<^verbatim>\<open>clamped\<close> projects the channels back into the legal range.\<close>

definition clamp_channel :: "int \<Rightarrow> int" where
  "clamp_channel x = max 0 (min 255 x)"

definition rgba_clamped :: "rgba \<Rightarrow> rgba" where
  "rgba_clamped c =
     RGBA (clamp_channel (red c)) (clamp_channel (green c)) (clamp_channel (blue c))
       (max 0 (min 1 (alpha c))) (palette_index c)"

text \<open>
  Modelled from the spec: \<^verbatim>\<open>hex\<close> is a hex colour string, or a symbolic token when the
  colour is a fixed-palette one. An alpha below 1 adds a fourth byte.
\<close>

definition hex_byte :: "int \<Rightarrow> string" where
  "hex_byte x = [''0123456789ABCDEF'' ! nat (x div 16), ''0123456789ABCDEF'' ! nat (x mod 16)]"

definition rgba_hex :: "rgba \<Rightarrow> string" where
  "rgba_hex c =
     (case palette_index c of
        Some i \<Rightarrow> ''ansi_'' @ str i
      | None \<Rightarrow>
         (let k = rgba_clamped c
          in ''#'' @ hex_byte (red k) @ hex_byte (green k) @ hex_byte (blue k)
               @ (if alpha k = 1 then [] else hex_byte \<lfloor>alpha k * 255\<rfloor>)))"

text \<open>
  Modelled from the spec: \<^verbatim>\<open>blend\<close> is the linear interpolation toward the other
  colour by the factor; the alpha of the result can be given. On a fixed-palette
  colour it returns the colour.
\<close>

definition mix :: "int \<Rightarrow> int \<Rightarrow> rat \<Rightarrow> int" where
  "mix x y factor = \<lfloor>of_int x + of_int (y - x) * factor\<rfloor>"

definition rgba_blend :: "rgba \<Rightarrow> rgba \<Rightarrow> rat \<Rightarrow> rat option \<Rightarrow> rgba" where
  "rgba_blend c destination factor new_alpha =
     (if palette_index c \<noteq> None then c
      else RGBA (mix (red c) (red destination) factor)
                (mix (green c) (green destination) factor)
                (mix (blue c) (blue destination) factor)
                (case new_alpha of
                   None \<Rightarrow> alpha c + (alpha destination - alpha c) * factor
                 | Some a \<Rightarrow> a)
                None)"

text \<open>
  Modelled from the spec: \<^verbatim>\<open>+\<close> paints the second colour over the first; a fully
  transparent second colour leaves the first.
\<close>

definition rgba_add :: "rgba \<Rightarrow> rgba \<Rightarrow> rgba" where
  "rgba_add c other =
     (if alpha other = 0 then c
      else if alpha other = 1 then other
      else rgba_blend c other (alpha other) (Some 1))"

text \<open>
  Modelled from the spec: \<^verbatim>\<open>lighten\<close> moves the luminosity by the amount (negative
  darkens), clamped to the legal range, and does nothing to a fixed-palette colour.
\<close>

definition rgba_lighten :: "rgba \<Rightarrow> rat \<Rightarrow> rgba" where
  "rgba_lighten c amount =
     (if palette_index c \<noteq> None then c
      else rgba_clamped
             (RGBA (red c + \<lfloor>amount * 255\<rfloor>) (green c + \<lfloor>amount * 255\<rfloor>)
                (blue c + \<lfloor>amount * 255\<rfloor>) (alpha c) None))"

text \<open>
  Modelled from the spec: \<^verbatim>\<open>with_alpha\<close> replaces the alpha, \<^verbatim>\<open>inverse\<close> inverts the
  lightness, \<^verbatim>\<open>get_contrast_text\<close> is white or black, whichever contrasts more, at the
  given opacity.
\<close>

definition rgba_with_alpha :: "rgba \<Rightarrow> rat \<Rightarrow> rgba" where
  "rgba_with_alpha c a = RGBA (red c) (green c) (blue c) a (palette_index c)"

definition rgba_inverse :: "rgba \<Rightarrow> rgba" where
  "rgba_inverse c =
     (if palette_index c \<noteq> None then c
      else RGBA (255 - red c) (255 - green c) (255 - blue c) (alpha c) None)"

definition rgba_contrast_text :: "rgba \<Rightarrow> rat \<Rightarrow> rgba" where
  "rgba_contrast_text c a =
     (if 299 * red c + 587 * green c + 114 * blue c < 127500
      then RGBA 255 255 255 a None
      else RGBA 0 0 0 a None)"

definition RGBA_module :: "(rgba, rat) color_module" where
  "RGBA_module =
     \<lparr> parse = rgba_parse,
       WHITE = RGBA 255 255 255 1 None,
       TRANSPARENT = RGBA 0 0 0 0 None,
       ansi = palette_index,
       hex = rgba_hex,
       is_transparent = (\<lambda>c. alpha c = 0 \<and> palette_index c = None),
       clamped = rgba_clamped,
       inverse_c = rgba_inverse,
       color_add = rgba_add,
       lighten = rgba_lighten,
       blend = rgba_blend,
       with_alpha = rgba_with_alpha,
       get_contrast_text = rgba_contrast_text,
       float_of = (\<lambda>q. q),
       fadd = (+),
       fmul = (*),
       fdiv = (/) \<rparr>"

text \<open>
  Three colour systems: \<^verbatim>\<open>ColorSystem(primary="#004578")\<close>, the same with
  \<^verbatim>\<open>dark=True\<close>, and a dark one whose primary is entry 1 of the fixed palette.
\<close>

definition light_system :: "(rgba, rat) ColorSystem" where
  "light_system =
     \<lparr> ColorSystem.primary = RGBA 0 69 120 1 None,
       secondary = None, warning = None, error = None, success = None, accent = None,
       foreground = None, background = None, surface = None, panel = None, boost = None,
       dark = False, luminosity_spread = 15 / 100, text_alpha = 95 / 100 \<rparr>"

definition dark_system :: "(rgba, rat) ColorSystem" where
  "dark_system = light_system \<lparr> dark := True \<rparr>"


section \<open>Style: composition, the colourless projection, folds\<close>

text \<open>
  Claim C1. Painting \<open>B\<close> over \<open>A\<close> with \<^verbatim>\<open>A + B\<close> gives the Style whose background is
  \<open>A\<close>'s background composited with \<open>B\<close>'s, whose foreground is \<open>B\<close>'s unless that is
  fully transparent (then \<open>A\<close>'s), and where each of bold, dim, italic, underline,
  strike, link and metadata is \<open>B\<close>'s value if it is set and \<open>A\<close>'s otherwise.
\<close>

theorem style_add_fields:
  "Style.background (style_add M A B) = color_add M (Style.background A) (Style.background B)
   \<and> Style.foreground (style_add M A B) =
       (if is_transparent M (Style.foreground B) then Style.foreground A else Style.foreground B)
   \<and> bold (style_add M A B) = (case bold B of None \<Rightarrow> bold A | Some b \<Rightarrow> Some b)
   \<and> dim (style_add M A B) = (case dim B of None \<Rightarrow> dim A | Some b \<Rightarrow> Some b)
   \<and> italic (style_add M A B) = (case italic B of None \<Rightarrow> italic A | Some b \<Rightarrow> Some b)
   \<and> underline (style_add M A B) = (case underline B of None \<Rightarrow> underline A | Some b \<Rightarrow> Some b)
   \<and> strike (style_add M A B) = (case strike B of None \<Rightarrow> strike A | Some b \<Rightarrow> Some b)
   \<and> link (style_add M A B) = (case link B of None \<Rightarrow> link A | Some l \<Rightarrow> Some l)
   \<and> meta (style_add M A B) = (case meta B of None \<Rightarrow> meta A | Some m \<Rightarrow> Some m)"
  by (simp add: style_add_def split: option.split)

text \<open>
  What \<^verbatim>\<open>without_color\<close> does to each field: the two colours become transparent, six
  fields are carried over, and underline, which the constructor call does not pass,
  falls back to the constructor's default.
\<close>

lemma without_color_fields:
  "Style.background (without_color M S) = TRANSPARENT M
   \<and> Style.foreground (without_color M S) = TRANSPARENT M
   \<and> bold (without_color M S) = bold S
   \<and> dim (without_color M S) = dim S
   \<and> italic (without_color M S) = italic S
   \<and> strike (without_color M S) = strike S
   \<and> link (without_color M S) = link S
   \<and> meta (without_color M S) = meta S
   \<and> underline (without_color M S) = None"
  by (simp add: without_color_def Style_default_def)

text \<open>
  Claim C2 says that \<^verbatim>\<open>without_color\<close> resets the two colours and leaves bold, dim,
  italic, underline, strike, link and metadata as they are. For a Style whose underline
  is set, the result has no underline: the field is lost.
\<close>

theorem without_color_drops_underline:
  "underline (S\<lparr>underline := Some True\<rparr>) = Some True
   \<and> underline (without_color M (S\<lparr>underline := Some True\<rparr>)) = None"
  by (simp add: without_color_def Style_default_def)

lemma sum_py_foldl: "sum_py add xs start = foldl add start xs"
  by (induction xs arbitrary: start) simp_all

text \<open>
  Claim C8. On a non-empty sequence, \<^verbatim>\<open>Style.combine\<close> is the left-to-right fold of
  \<^verbatim>\<open>+\<close> that starts from the first element and runs over the others: for three styles
  it is \<open>(A + B) + C\<close>, and the first style is not added to itself (a single style is
  returned as it is).
\<close>

theorem combine_left_fold:
  "combine M (first # rest) = Inr (foldl (style_add M) first rest)
   \<and> combine M [A, B, C] = Inr (style_add M (style_add M A B) C)
   \<and> combine M [A] = Inr A"
  by (simp add: combine_def iter_def sum_py_foldl)

section \<open>textualize\<close>

text \<open>
  Claim C9. \<^verbatim>\<open>textualize(obj)\<close> returns None, and does not raise, when \<open>obj\<close> has no
  attribute \<^verbatim>\<open>textualize\<close> and when the call of the attribute returns a value that is
  not a Visual; when the call returns a Visual, that Visual is the result.
\<close>

theorem textualize_result:
  "textualize No_Attribute = Inr None
   \<and> (\<not> isinstance_Visual x \<longrightarrow> textualize (Holds_Callable (Returns x)) = Inr None)
   \<and> textualize (Holds_Callable (Returns (A_Visual v))) = Inr (Some v)"
  by (cases x) simp_all

theorem textualize_result_witness:
  "\<not> isinstance_Visual (Not_A_Visual ''text'' :: nat pyvalue)
   \<and> textualize (Holds_Callable (Returns (Not_A_Visual ''text'' :: nat pyvalue))) = Inr None
   \<and> textualize (Holds_Callable (Returns (A_Visual (7::nat)))) = Inr (Some 7)"
  using textualize_result [of "Not_A_Visual ''text'' :: nat pyvalue" 7]
  by simp

section \<open>generate: the palette as a run of assignments\<close>

subsection \<open>Runs of assignments\<close>

lemma assign_Nil: "assign m [] = m"
  by (simp add: assign_def)

lemma assign_Cons: "assign m ((k, v) # kvs) = assign (m(k \<mapsto> v)) kvs"
  by (simp add: assign_def)

lemma assign_append: "assign m (xs @ ys) = assign (assign m xs) ys"
  by (simp add: assign_def)



lemma dom_assign: "dom (assign m kvs) = dom m \<union> fst ` set kvs"
proof (induction kvs arbitrary: m)
  case Nil
  then show ?case by (simp add: assign_Nil)
next
  case (Cons kv kvs)
  obtain k' v' where kv: "kv = (k', v')" by (cases kv)
  have "dom (assign m (kv # kvs)) = dom (assign (m(k' \<mapsto> v')) kvs)"
    by (simp only: kv assign_Cons)
  also have "\<dots> = dom (m(k' \<mapsto> v')) \<union> fst ` set kvs" by (rule Cons.IH)
  also have "\<dots> = dom m \<union> fst ` set (kv # kvs)" by (simp add: kv)
  finally show ?case .
qed

subsection \<open>The loops as a run of assignments\<close>

lemma store_shade_assign:
  "store_shade M rc name color d spread colors (shade_name, delta) =
     assign colors [(name @ shade_name, shade_hex M rc color d spread delta)]"
  by (simp add: store_shade_def shade_hex_def dark_shade_def assign_def)

lemma inner_loop_assign:
  "foldl (store_shade M rc name color d spread) colors xs =
     assign colors
       (map (\<lambda>(shade_name, delta). (name @ shade_name, shade_hex M rc color d spread delta)) xs)"
proof (induction xs arbitrary: colors)
  case Nil
  then show ?case by (simp add: assign_Nil)
next
  case (Cons shade xs)
  obtain shade_name delta where shade: "shade = (shade_name, delta)" by (cases shade)
  let ?f = "\<lambda>(shade_name, delta). (name @ shade_name, shade_hex M rc color d spread delta)"
  have "foldl (store_shade M rc name color d spread) colors (shade # xs)
      = foldl (store_shade M rc name color d spread) (assign colors [?f shade]) xs"
    by (simp only: foldl_Cons shade store_shade_assign prod.case)
  also have "\<dots> = assign (assign colors [?f shade]) (map ?f xs)" by (rule Cons.IH)
  also have "\<dots> = assign colors (map ?f (shade # xs))"
    by (simp only: assign_append [symmetric] list.map append_Cons append_Nil)
  finally show ?case .
qed

lemma outer_loop_assign:
  "foldl (\<lambda>colors (name, color).
            let is_dark_shade = (dark self \<and> name \<in> DARK_SHADES);
                spread = luminosity_spread self
            in foldl (store_shade M rc name color is_dark_shade spread)
                 colors (luminosity_range M spread))
         colors cl =
   assign colors
     (concat (map (\<lambda>(name, color).
        map (\<lambda>(shade_name, luminosity_delta).
               (name @ shade_name,
                shade_hex M rc color (dark self \<and> name \<in> DARK_SHADES)
                  (luminosity_spread self) luminosity_delta))
            (luminosity_range M (luminosity_spread self)))
        cl))"
  (is "foldl ?body colors cl = assign colors (concat (map ?row cl))")
proof (induction cl arbitrary: colors)
  case Nil
  then show ?case by (simp add: assign_Nil)
next
  case (Cons nc cl)
  obtain name color where nc: "nc = (name, color)" by (cases nc)
  have body: "?body colors nc = assign colors (?row nc)"
    by (simp only: nc prod.case Let_def inner_loop_assign)
  have "foldl ?body colors (nc # cl) = foldl ?body (assign colors (?row nc)) cl"
    by (simp only: foldl_Cons body)
  also have "\<dots> = assign (assign colors (?row nc)) (concat (map ?row cl))" by (rule Cons.IH)
  also have "\<dots> = assign colors (concat (map ?row (nc # cl)))"
    by (simp only: assign_append [symmetric] list.map concat.simps)
  finally show ?case .
qed

lemma store_shades_assign:
  "store_shades M self rc colors = assign colors (shade_entries M self rc)"
  unfolding store_shades_def shade_entries_def by (rule outer_loop_assign)

subsection \<open>The keys\<close>

lemma range_py_shades:
  "range_py (- NUMBER_OF_SHADES) (NUMBER_OF_SHADES + 1) = [-3, -2, -1, 0, 1, 2, 3]"
  by (simp add: range_py_def NUMBER_OF_SHADES_def upto.simps)

lemma shade_labels: "map shade_label [-3, -2, -1, 0, 1, 2, 3] = SHADE_SUFFIXES"
  by (simp add: shade_label_def SHADE_SUFFIXES_def str_def str_nat.simps digit_char_def)

lemma luminosity_range_labels: "map fst (luminosity_range M spread) = SHADE_SUFFIXES"
  by (simp add: luminosity_range_def range_py_shades shade_labels [symmetric] del: list.map)

lemma COLORS_names: "map fst (COLORS rc) = SHADED_NAMES"
  by (simp add: COLORS_def SHADED_NAMES_def)

lemma row_keys:
  "map fst (map (\<lambda>(shade_name, luminosity_delta). (name @ shade_name, f shade_name luminosity_delta)) xs)
     = map (\<lambda>suffix. name @ suffix) (map fst xs)"
  by (induction xs) auto

lemma shade_entries_keys: "map fst (shade_entries M self rc) = SHADE_KEYS"
proof -
  have "map fst (shade_entries M self rc)
      = concat (map (\<lambda>nc. map (\<lambda>suffix. fst nc @ suffix) SHADE_SUFFIXES) (COLORS rc))"
    unfolding shade_entries_def map_concat map_map comp_def
    by (simp only: case_prod_beta row_keys luminosity_range_labels
          row_keys [where f = "\<lambda>s d. g d" for g])
  also have "\<dots> = concat (map (\<lambda>name. map (\<lambda>suffix. name @ suffix) SHADE_SUFFIXES) (map fst (COLORS rc)))"
    by (simp add: comp_def case_prod_beta)
  finally show ?thesis by (simp only: COLORS_names SHADE_KEYS_def)
qed

lemma distinct_keys: "distinct (SHADE_KEYS @ DERIVED_KEYS)"
  by (simp add: SHADE_KEYS_def DERIVED_KEYS_def SHADE_SUFFIXES_def SHADED_NAMES_def)

lemma length_keys: "length (SHADE_KEYS @ DERIVED_KEYS) = 100"
  by (simp add: SHADE_KEYS_def DERIVED_KEYS_def SHADE_SUFFIXES_def SHADED_NAMES_def)

lemma store_derived_assign:
  "store_derived M self rc colors = assign colors (derived_entries M self rc)"
  by (simp add: store_derived_def derived_entries_def assign_def)

lemma derived_entries_keys: "map fst (derived_entries M self rc) = DERIVED_KEYS"
  by (simp add: derived_entries_def DERIVED_KEYS_def)

lemma generate_assign:
  "resolve M self = Inr rc \<Longrightarrow>
   generate M self = Inr (assign Map.empty (shade_entries M self rc @ derived_entries M self rc))"
  by (simp add: generate_def raising_def store_shades_assign store_derived_assign assign_append)

lemma entries_keys:
  "map fst (shade_entries M self rc @ derived_entries M self rc) = SHADE_KEYS @ DERIVED_KEYS"
  by (simp add: shade_entries_keys derived_entries_keys)

lemma resolve_total: "parses_defaults M \<Longrightarrow> \<exists>rc. resolve M self = Inr rc"
  by (auto simp: parses_defaults_def resolve_def raising_def or_parse_def Let_def
      split: sum.splits option.splits)



lemma generate_dom:
  assumes "resolve M self = Inr rc"
  shows "\<exists>colors. generate M self = Inr colors \<and> dom colors = set (SHADE_KEYS @ DERIVED_KEYS)"
proof -
  have "dom (assign Map.empty (shade_entries M self rc @ derived_entries M self rc))
          = fst ` set (shade_entries M self rc @ derived_entries M self rc)"
    by (simp add: dom_assign)
  also have "\<dots> = set (map fst (shade_entries M self rc @ derived_entries M self rc))"
    by (simp only: set_map)
  also have "\<dots> = set (SHADE_KEYS @ DERIVED_KEYS)" by (simp only: entries_keys)
  finally show ?thesis using generate_assign [OF assms] by simp
qed






section \<open>generate: the claims\<close>


lemma resolve_dark_system:
  "resolve RGBA_module dark_system =
     Inr \<lparr> resolved.primary = RGBA 0 69 120 1 None, secondary = RGBA 0 69 120 1 None,
           warning = RGBA 0 69 120 1 None, error = RGBA 0 69 120 1 None,
           success = RGBA 0 69 120 1 None, accent = RGBA 0 69 120 1 None,
           background = RGBA 30 30 30 1 None, surface = RGBA 39 39 39 1 None,
           foreground = RGBA 225 225 225 1 None, boost = RGBA 255 255 255 (1 / 25) None,
           panel = RGBA 43 50 55 1 None \<rparr>"
  by code_simp


text \<open>
  Claim C4. When \<^verbatim>\<open>Color.parse\<close> returns a colour for each of the four built-in
  defaults, \<^verbatim>\<open>generate\<close> resolves the colours as follows and goes on with them:
  secondary is the seed or primary; warning the seed or primary; error and success the
  seed or the resolved secondary; accent the seed or primary; background and surface
  the seed or the parsed dark or light default, chosen by \<open>dark\<close>; foreground the seed
  or the inverse of the resolved background; boost the seed or
  \<^verbatim>\<open>background.get_contrast_text(1.0).with_alpha(0.04)\<close>; panel the seed or
  \<^verbatim>\<open>surface.blend(primary, 0.1, alpha=1)\<close>, with boost added on top exactly when
  \<open>dark\<close> holds.
\<close>

theorem fallback_chain:
  assumes "parse M DEFAULT_DARK_BACKGROUND = Inr dark_background"
    and "parse M DEFAULT_DARK_SURFACE = Inr dark_surface"
    and "parse M DEFAULT_LIGHT_BACKGROUND = Inr light_background"
    and "parse M DEFAULT_LIGHT_SURFACE = Inr light_surface"
  shows "\<exists>rc. resolve M self = Inr rc
    \<and> generate M self = Inr (store_derived M self rc (store_shades M self rc Map.empty))
    \<and> resolved.primary rc = ColorSystem.primary self
    \<and> resolved.secondary rc =
        (case ColorSystem.secondary self of None \<Rightarrow> ColorSystem.primary self | Some c \<Rightarrow> c)
    \<and> resolved.warning rc =
        (case ColorSystem.warning self of None \<Rightarrow> ColorSystem.primary self | Some c \<Rightarrow> c)
    \<and> resolved.error rc =
        (case ColorSystem.error self of None \<Rightarrow> resolved.secondary rc | Some c \<Rightarrow> c)
    \<and> resolved.success rc =
        (case ColorSystem.success self of None \<Rightarrow> resolved.secondary rc | Some c \<Rightarrow> c)
    \<and> resolved.accent rc =
        (case ColorSystem.accent self of None \<Rightarrow> ColorSystem.primary self | Some c \<Rightarrow> c)
    \<and> resolved.background rc =
        (case ColorSystem.background self of
           None \<Rightarrow> if dark self then dark_background else light_background
         | Some c \<Rightarrow> c)
    \<and> resolved.surface rc =
        (case ColorSystem.surface self of
           None \<Rightarrow> if dark self then dark_surface else light_surface
         | Some c \<Rightarrow> c)
    \<and> resolved.foreground rc =
        (case ColorSystem.foreground self of
           None \<Rightarrow> inverse_c M (resolved.background rc)
         | Some c \<Rightarrow> c)
    \<and> resolved.boost rc =
        (case ColorSystem.boost self of
           None \<Rightarrow> with_alpha M (get_contrast_text M (resolved.background rc) (float_of M 1))
                     (float_of M (4 / 100))
         | Some c \<Rightarrow> c)
    \<and> resolved.panel rc =
        (case ColorSystem.panel self of
           None \<Rightarrow>
             if dark self
             then color_add M
                    (blend M (resolved.surface rc) (ColorSystem.primary self)
                       (float_of M (1 / 10)) (Some (float_of M 1)))
                    (resolved.boost rc)
             else blend M (resolved.surface rc) (ColorSystem.primary self)
                    (float_of M (1 / 10)) (Some (float_of M 1))
         | Some c \<Rightarrow> c)"
  using assms
  by (simp add: resolve_def generate_def raising_def or_parse_def or_else_def Let_def
      split: option.split)

theorem fallback_chain_witness:
  "parse RGBA_module DEFAULT_DARK_BACKGROUND = Inr (RGBA 30 30 30 1 None)
   \<and> parse RGBA_module DEFAULT_DARK_SURFACE = Inr (RGBA 39 39 39 1 None)
   \<and> parse RGBA_module DEFAULT_LIGHT_BACKGROUND = Inr (RGBA 239 239 239 1 None)
   \<and> parse RGBA_module DEFAULT_LIGHT_SURFACE = Inr (RGBA 245 245 245 1 None)
   \<and> (\<exists>rc. resolve RGBA_module dark_system = Inr rc
         \<and> resolved.secondary rc = RGBA 0 69 120 1 None
         \<and> resolved.error rc = RGBA 0 69 120 1 None
         \<and> resolved.background rc = RGBA 30 30 30 1 None
         \<and> resolved.surface rc = RGBA 39 39 39 1 None
         \<and> resolved.foreground rc = RGBA 225 225 225 1 None
         \<and> resolved.boost rc = RGBA 255 255 255 (1 / 25) None
         \<and> resolved.panel rc = RGBA 43 50 55 1 None)"
proof -
  have h1: "parse RGBA_module DEFAULT_DARK_BACKGROUND = Inr (RGBA 30 30 30 1 None)"
    and h2: "parse RGBA_module DEFAULT_DARK_SURFACE = Inr (RGBA 39 39 39 1 None)"
    and h3: "parse RGBA_module DEFAULT_LIGHT_BACKGROUND = Inr (RGBA 239 239 239 1 None)"
    and h4: "parse RGBA_module DEFAULT_LIGHT_SURFACE = Inr (RGBA 245 245 245 1 None)"
    by code_simp+
  from fallback_chain [OF h1 h2 h3 h4, of dark_system]
  obtain rc where rc: "resolve RGBA_module dark_system = Inr rc" by blast
  then have "\<exists>rc. resolve RGBA_module dark_system = Inr rc
         \<and> resolved.secondary rc = RGBA 0 69 120 1 None
         \<and> resolved.error rc = RGBA 0 69 120 1 None
         \<and> resolved.background rc = RGBA 30 30 30 1 None
         \<and> resolved.surface rc = RGBA 39 39 39 1 None
         \<and> resolved.foreground rc = RGBA 225 225 225 1 None
         \<and> resolved.boost rc = RGBA 255 255 255 (1 / 25) None
         \<and> resolved.panel rc = RGBA 43 50 55 1 None"
    by (auto simp add: resolve_dark_system)
  with h1 h2 h3 h4 show ?thesis by blast
qed


text \<open>
  Claim C5. Whatever the seeds, the palette that \<^verbatim>\<open>generate\<close> returns has as its keys
  the thirteen colour names, each with the seven suffixes from \<^verbatim>\<open>-darken-3\<close> to
  \<^verbatim>\<open>-lighten-3\<close>, and the nine derived tokens: one hundred keys.
\<close>

theorem generate_keys:
  assumes "parses_defaults M"
  shows "\<exists>colors. generate M self = Inr colors
    \<and> dom colors =
        set (concat (map (\<lambda>name. map (\<lambda>suffix. name @ suffix)
               [''-darken-3'', ''-darken-2'', ''-darken-1'', [],
                ''-lighten-1'', ''-lighten-2'', ''-lighten-3''])
               [''primary'', ''secondary'', ''primary-background'', ''secondary-background'',
                ''background'', ''foreground'', ''panel'', ''boost'', ''surface'', ''warning'',
                ''error'', ''success'', ''accent'']))
        \<union> {''text'', ''text-muted'', ''text-disabled'', ''highlight-cursor'',
           ''highlight-cursor-blurred'', ''border'', ''border-blurred'', ''highlight-hover'',
           ''surface-active''}
    \<and> card (dom colors) = 100"
proof -
  from resolve_total [OF assms] obtain rc where "resolve M self = Inr rc" by blast
  from generate_dom [OF this] obtain colors
    where colors: "generate M self = Inr colors" "dom colors = set (SHADE_KEYS @ DERIVED_KEYS)"
    by blast
  have "card (set (SHADE_KEYS @ DERIVED_KEYS)) = length (SHADE_KEYS @ DERIVED_KEYS)"
    using distinct_keys by (rule distinct_card)
  then have card: "card (dom colors) = 100" by (simp only: colors(2) length_keys)
  have keys: "set (SHADE_KEYS @ DERIVED_KEYS) =
        set (concat (map (\<lambda>name. map (\<lambda>suffix. name @ suffix)
               [''-darken-3'', ''-darken-2'', ''-darken-1'', [],
                ''-lighten-1'', ''-lighten-2'', ''-lighten-3''])
               [''primary'', ''secondary'', ''primary-background'', ''secondary-background'',
                ''background'', ''foreground'', ''panel'', ''boost'', ''surface'', ''warning'',
                ''error'', ''success'', ''accent'']))
        \<union> {''text'', ''text-muted'', ''text-disabled'', ''highlight-cursor'',
           ''highlight-cursor-blurred'', ''border'', ''border-blurred'', ''highlight-hover'',
           ''surface-active''}"
    unfolding SHADE_KEYS_def SHADE_SUFFIXES_def SHADED_NAMES_def DERIVED_KEYS_def set_append
    by (simp only: list.set)
  from colors(1) colors(2) [unfolded keys] card show ?thesis by blast
qed

theorem generate_keys_witness:
  "parses_defaults RGBA_module
   \<and> (\<exists>colors. generate RGBA_module light_system = Inr colors \<and> card (dom colors) = 100)"
proof -
  have h: "parses_defaults RGBA_module" by code_simp
  from generate_keys [OF h, of light_system] h show ?thesis by blast
qed














end
